theory Spec2Isabelle
  imports Main "HOL-Library.Sublist" "HOL-Library.Code_Target_Nat"
begin

section \<open>Values and exceptions of the Python program\<close>

text \<open>
  \<^verbatim>\<open>davinci_sync.py\<close> converts the JSON answer of a DaVinci timetable server into
  an iCalendar document. \<^verbatim>\<open>generate_ics\<close> receives whatever \<^verbatim>\<open>response.json()\<close>
  returned, so its argument is an arbitrary JSON value. Objects are association lists
  in insertion order (a Python \<^verbatim>\<open>dict\<close> has distinct keys). Numbers are integers:
  floating point is not modelled. A Python \<^verbatim>\<open>str\<close> is a \<^typ>\<open>string\<close>; a
  \<^typ>\<open>char\<close> stands for the code point of the same number, so the model covers
  the code points below 256, which include every character of the program's literals.
\<close>

datatype json =
    JNull
  | JBool bool
  | JNum int
  | JStr string
  | JArr "json list"
  | JObj "(string \<times> json) list"

text \<open>The exceptions the program can meet; \<open>Inl\<close> of a result is a raised exception.\<close>

datatype error = TypeError | AttributeError | KeyError | IndexError | ValueError | OverflowError


text \<open>Sequencing: the first exception ends the computation.\<close>

definition bind_err :: "error + 'a \<Rightarrow> ('a \<Rightarrow> error + 'b) \<Rightarrow> error + 'b" where
  "bind_err r f = (case r of Inl e \<Rightarrow> Inl e | Inr x \<Rightarrow> f x)"

section \<open>Python primitives used by the program\<close>

text \<open>Truth value of an object, as \<^verbatim>\<open>if x:\<close> and \<^verbatim>\<open>not x\<close> test it.\<close>

fun truthy :: "json \<Rightarrow> bool" where
  "truthy JNull = False"
| "truthy (JBool b) = b"
| "truthy (JNum n) = (n \<noteq> 0)"
| "truthy (JStr s) = (s \<noteq> [])"
| "truthy (JArr xs) = (xs \<noteq> [])"
| "truthy (JObj kvs) = (kvs \<noteq> [])"

text \<open>\<^verbatim>\<open>sub in s\<close> on two strings: \<open>sub\<close> occurs in \<open>s\<close> as a contiguous piece.\<close>

fun is_substring :: "string \<Rightarrow> string \<Rightarrow> bool" where
  "is_substring sub [] = (sub = [])"
| "is_substring sub (c # cs) = (prefix sub (c # cs) \<or> is_substring sub cs)"



text \<open>\<^verbatim>\<open>x.get(key, default)\<close>: only objects have the method.\<close>

definition lookup_or :: "(string \<times> json) list \<Rightarrow> string \<Rightarrow> json \<Rightarrow> json" where
  "lookup_or kvs k dflt = (case map_of kvs k of None \<Rightarrow> dflt | Some v \<Rightarrow> v)"

fun dict_get :: "json \<Rightarrow> string \<Rightarrow> json \<Rightarrow> error + json" where
  "dict_get (JObj kvs) k dflt = Inr (lookup_or kvs k dflt)"
| "dict_get _ k dflt = Inl AttributeError"

text \<open>
  The items a \<^verbatim>\<open>for\<close> loop (or \<^verbatim>\<open>str.join\<close>) draws from an object: the elements
  of a list, the one-character strings of a string, the keys of a dict.
\<close>

fun py_iter :: "json \<Rightarrow> error + json list" where
  "py_iter (JArr xs) = Inr xs"
| "py_iter (JStr s) = Inr (map (\<lambda>c. JStr [c]) s)"
| "py_iter (JObj kvs) = Inr (map (\<lambda>kv. JStr (fst kv)) kvs)"
| "py_iter _ = Inl TypeError"

text \<open>\<^verbatim>\<open>x[0]\<close>, reached only for a truthy \<open>x\<close>.\<close>

fun getitem0 :: "json \<Rightarrow> error + json" where
  "getitem0 (JArr xs) = (case xs of [] \<Rightarrow> Inl IndexError | x # _ \<Rightarrow> Inr x)"
| "getitem0 (JStr s) = (case s of [] \<Rightarrow> Inl IndexError | c # _ \<Rightarrow> Inr (JStr [c]))"
| "getitem0 (JObj kvs) = Inl KeyError"
| "getitem0 _ = Inl TypeError"

text \<open>\<^verbatim>\<open>sep.join(items)\<close>: every item must be a string.\<close>

fun join_strs :: "string \<Rightarrow> string list \<Rightarrow> string" where
  "join_strs sep [] = []"
| "join_strs sep [s] = s"
| "join_strs sep (s # t # ss) = s @ sep @ join_strs sep (t # ss)"

fun as_strs :: "json list \<Rightarrow> error + string list" where
  "as_strs [] = Inr []"
| "as_strs (JStr s # xs) = (case as_strs xs of Inl e \<Rightarrow> Inl e | Inr ss \<Rightarrow> Inr (s # ss))"
| "as_strs (_ # xs) = Inl TypeError"

definition py_join :: "string \<Rightarrow> json \<Rightarrow> error + string" where
  "py_join sep x =
     (case py_iter x of Inl e \<Rightarrow> Inl e
      | Inr items \<Rightarrow> (case as_strs items of Inl e \<Rightarrow> Inl e | Inr ss \<Rightarrow> Inr (join_strs sep ss)))"

text \<open>\<^verbatim>\<open>s.replace(old, new)\<close> for a one-character \<open>old\<close>.\<close>

definition replace_char :: "char \<Rightarrow> string \<Rightarrow> string \<Rightarrow> string" where
  "replace_char old new s = concat (map (\<lambda>c. if c = old then new else [c]) s)"

text \<open>\<^verbatim>\<open>s.lower()\<close> on code points below 256: A-Z and the accented capitals move by 32.\<close>

definition lower_char :: "char \<Rightarrow> char" where
  "lower_char c =
     (let n = of_char c :: nat
      in if (65 \<le> n \<and> n \<le> 90) \<or> (192 \<le> n \<and> n \<le> 222 \<and> n \<noteq> 215) then char_of (n + 32) else c)"

definition py_lower :: "string \<Rightarrow> string" where
  "py_lower s = map lower_char s"

text \<open>Only strings have \<^verbatim>\<open>lower\<close> and \<^verbatim>\<open>replace\<close>.\<close>

fun str_lower :: "json \<Rightarrow> error + string" where
  "str_lower (JStr s) = Inr (py_lower s)"
| "str_lower _ = Inl AttributeError"

fun str_replace :: "json \<Rightarrow> char \<Rightarrow> string \<Rightarrow> error + string" where
  "str_replace (JStr s) old new = Inr (replace_char old new s)"
| "str_replace _ old new = Inl AttributeError"

subsection \<open>Formatting values in an f-string\<close>

definition digit_char :: "nat \<Rightarrow> char" where
  "digit_char d = char_of (48 + d)"

function dec_nat :: "nat \<Rightarrow> string" where
  "dec_nat n = (if n < 10 then [digit_char n] else dec_nat (n div 10) @ [digit_char (n mod 10)])"
  by pat_completeness auto
termination
  by (relation "measure id") auto

declare dec_nat.simps [simp del]

definition dec_int :: "int \<Rightarrow> string" where
  "dec_int i = (if i < 0 then ''-'' @ dec_nat (nat (- i)) else dec_nat (nat i))"

definition hex_char :: "nat \<Rightarrow> char" where
  "hex_char d = (if d < 10 then char_of (48 + d) else char_of (87 + d))"

text \<open>
  \<^verbatim>\<open>repr\<close> of a string: single quotes unless the string holds a single quote and no
  double quote; the quote, the backslash and the unprintable code points are escaped.
\<close>

definition printable :: "char \<Rightarrow> bool" where
  "printable c = (let n = of_char c :: nat in (32 \<le> n \<and> n < 127) \<or> (161 \<le> n \<and> n \<noteq> 173))"

definition repr_char :: "char \<Rightarrow> char \<Rightarrow> string" where
  "repr_char q c =
     (if c = q \<or> c = CHR 0x5C then [CHR 0x5C, c]
      else if c = CHR 0x09 then [CHR 0x5C, CHR ''t'']
      else if c = CHR 0x0A then [CHR 0x5C, CHR ''n'']
      else if c = CHR 0x0D then [CHR 0x5C, CHR ''r'']
      else if printable c then [c]
      else [CHR 0x5C, CHR ''x'', hex_char (of_char c div 16), hex_char (of_char c mod 16)])"

definition repr_str :: "string \<Rightarrow> string" where
  "repr_str s =
     (let q = (if CHR 0x27 \<in> set s \<and> CHR 0x22 \<notin> set s then CHR 0x22 else CHR 0x27)
      in [q] @ concat (map (repr_char q) s) @ [q])"

fun py_repr :: "json \<Rightarrow> string" where
  "py_repr JNull = ''None''"
| "py_repr (JBool b) = (if b then ''True'' else ''False'')"
| "py_repr (JNum n) = dec_int n"
| "py_repr (JStr s) = repr_str s"
| "py_repr (JArr xs) = ''['' @ join_strs '', '' (map py_repr xs) @ '']''"
| "py_repr (JObj kvs) =
     ''{'' @ join_strs '', '' (map (\<lambda>kv. repr_str (fst kv) @ '': '' @ py_repr (snd kv)) kvs) @ ''}''"

text \<open>\<^verbatim>\<open>f"{x}"\<close> is \<^verbatim>\<open>str(x)\<close>: a string stands for itself, anything else for its \<^verbatim>\<open>repr\<close>.\<close>

fun py_str :: "json \<Rightarrow> string" where
  "py_str (JStr s) = s"
| "py_str x = py_repr x"

section \<open>The date and time library\<close>

text \<open>
  Lines 95 to 104 hand each combined string to \<^verbatim>\<open>datetime.strptime\<close>, to the
  \<^verbatim>\<open>Europe/Berlin\<close> zone of \<^verbatim>\<open>pytz\<close> and to \<^verbatim>\<open>strftime\<close>. None of the three
  is code of this repository, so the converter below takes the pipeline as a parameter
  (\<open>to_utc\<close> of the environment). This section gives one instance of it, used wherever
  a concrete run is evaluated and for the claim about daylight saving.
\<close>

record datetime =
  year :: nat
  month :: nat
  day :: nat
  hour :: nat
  minute :: nat

definition is_leap :: "nat \<Rightarrow> bool" where
  "is_leap y = (y mod 4 = 0 \<and> (y mod 100 \<noteq> 0 \<or> y mod 400 = 0))"

definition days_in_month :: "nat \<Rightarrow> nat \<Rightarrow> nat" where
  "days_in_month y m =
     (if m = 2 then (if is_leap y then 29 else 28)
      else if m = 4 \<or> m = 6 \<or> m = 9 \<or> m = 11 then 30 else 31)"

subsection \<open>\<^verbatim>\<open>strptime(s, "%Y%m%d%H%M")\<close>\<close>

text \<open>
  The format is turned into a regular expression, one group per directive, and the
  first match in backtracking order is taken. Each directive is modelled by the list
  of its matches at the head of the input, in the order of its alternatives:
  \<^verbatim>\<open>%Y\<close> is \<^verbatim>\<open>\d\d\d\d\<close>, \<^verbatim>\<open>%m\<close> is \<^verbatim>\<open>1[0-2]|0[1-9]|[1-9]\<close>,
  \<^verbatim>\<open>%d\<close> is \<^verbatim>\<open>3[01]|[12]\d|0[1-9]|[1-9]| [1-9]\<close>, \<^verbatim>\<open>%H\<close> is \<^verbatim>\<open>2[0-3]|[0-1]\d|\d\<close>
  and \<^verbatim>\<open>%M\<close> is \<^verbatim>\<open>[0-5]\d|\d\<close>.
\<close>

definition in_range :: "char \<Rightarrow> char \<Rightarrow> char \<Rightarrow> bool" where
  "in_range lo hi c = ((of_char lo :: nat) \<le> of_char c \<and> (of_char c :: nat) \<le> of_char hi)"

definition is_digit :: "char \<Rightarrow> bool" where
  "is_digit c = in_range CHR ''0'' CHR ''9'' c"

text \<open>The number a character contributes; the blank of \<^verbatim>\<open>" 7"\<close> contributes nothing.\<close>

definition digit_val :: "char \<Rightarrow> nat" where
  "digit_val c = (if is_digit c then of_char c - 48 else 0)"

definition two_chars :: "(char \<Rightarrow> char \<Rightarrow> bool) \<Rightarrow> string \<Rightarrow> (nat \<times> string) list" where
  "two_chars p s =
     (case s of a # b # r \<Rightarrow> if p a b then [(10 * digit_val a + digit_val b, r)] else []
      | _ \<Rightarrow> [])"

definition one_char :: "(char \<Rightarrow> bool) \<Rightarrow> string \<Rightarrow> (nat \<times> string) list" where
  "one_char p s = (case s of a # r \<Rightarrow> if p a then [(digit_val a, r)] else [] | _ \<Rightarrow> [])"

definition pat_Y :: "string \<Rightarrow> (nat \<times> string) list" where
  "pat_Y s =
     (case s of a # b # c # d # r \<Rightarrow>
        if is_digit a \<and> is_digit b \<and> is_digit c \<and> is_digit d
        then [(1000 * digit_val a + 100 * digit_val b + 10 * digit_val c + digit_val d, r)]
        else []
      | _ \<Rightarrow> [])"

definition pat_m :: "string \<Rightarrow> (nat \<times> string) list" where
  "pat_m s =
     two_chars (\<lambda>a b. a = CHR ''1'' \<and> in_range CHR ''0'' CHR ''2'' b) s
     @ two_chars (\<lambda>a b. a = CHR ''0'' \<and> in_range CHR ''1'' CHR ''9'' b) s
     @ one_char (in_range CHR ''1'' CHR ''9'') s"

definition pat_d :: "string \<Rightarrow> (nat \<times> string) list" where
  "pat_d s =
     two_chars (\<lambda>a b. a = CHR ''3'' \<and> in_range CHR ''0'' CHR ''1'' b) s
     @ two_chars (\<lambda>a b. in_range CHR ''1'' CHR ''2'' a \<and> is_digit b) s
     @ two_chars (\<lambda>a b. a = CHR ''0'' \<and> in_range CHR ''1'' CHR ''9'' b) s
     @ one_char (in_range CHR ''1'' CHR ''9'') s
     @ two_chars (\<lambda>a b. a = CHR '' '' \<and> in_range CHR ''1'' CHR ''9'' b) s"

definition pat_H :: "string \<Rightarrow> (nat \<times> string) list" where
  "pat_H s =
     two_chars (\<lambda>a b. a = CHR ''2'' \<and> in_range CHR ''0'' CHR ''3'' b) s
     @ two_chars (\<lambda>a b. in_range CHR ''0'' CHR ''1'' a \<and> is_digit b) s
     @ one_char is_digit s"

definition pat_M :: "string \<Rightarrow> (nat \<times> string) list" where
  "pat_M s =
     two_chars (\<lambda>a b. in_range CHR ''0'' CHR ''5'' a \<and> is_digit b) s
     @ one_char is_digit s"

definition matches :: "string \<Rightarrow> (datetime \<times> string) list" where
  "matches s =
     [(\<lparr>year = Y, month = m, day = d, hour = H, minute = M\<rparr>, r).
        (Y, r1) \<leftarrow> pat_Y s, (m, r2) \<leftarrow> pat_m r1, (d, r3) \<leftarrow> pat_d r2,
        (H, r4) \<leftarrow> pat_H r3, (M, r) \<leftarrow> pat_M r4]"

text \<open>
  The first match must use up the whole string, and its fields must form a date
  (year 0 and a day beyond the end of the month are refused), else \<^verbatim>\<open>ValueError\<close>.
\<close>

definition strptime :: "string \<Rightarrow> error + datetime" where
  "strptime s =
     (case matches s of
        [] \<Rightarrow> Inl ValueError
      | (dt, r) # _ \<Rightarrow>
          if r \<noteq> [] then Inl ValueError
          else if year dt < 1 \<or> days_in_month (year dt) (month dt) < day dt then Inl ValueError
          else Inr dt)"

subsection \<open>The zone \<^verbatim>\<open>Europe/Berlin\<close>\<close>

text \<open>Calendar arithmetic: the weekday of a date comes from its ordinal.\<close>

definition days_before_year :: "nat \<Rightarrow> nat" where
  "days_before_year y = 365 * (y - 1) + (y - 1) div 4 - (y - 1) div 100 + (y - 1) div 400"

definition days_before_month :: "nat \<Rightarrow> nat \<Rightarrow> nat" where
  "days_before_month y m = sum_list (map (days_in_month y) [1..<m])"

text \<open>The proleptic Gregorian ordinal: 1 January of year 1 is day 1, a Monday.\<close>

definition ordinal :: "nat \<Rightarrow> nat \<Rightarrow> nat \<Rightarrow> nat" where
  "ordinal y m d = days_before_year y + days_before_month y m + d"

text \<open>The last Sunday of a month of 31 days.\<close>

definition last_sunday :: "nat \<Rightarrow> nat \<Rightarrow> nat" where
  "last_sunday y m = 31 - ordinal y m 31 mod 7"

text \<open>
  Modelled from the spec: the zone table of \<^verbatim>\<open>pytz.timezone("Europe/Berlin")\<close> is
  not in the repository. The spec asks for "wall-clock time in a single fixed timezone
  (the institution's), converting correctly across daylight-saving boundaries". The rule
  of the zone in force since 1996 is modelled, and applied to every year: Central
  European Time is UTC+1; summer time, UTC+2, runs from the last Sunday of March to the
  last Sunday of October and changes at 01:00 UTC. \<^verbatim>\<open>localize\<close> is called with its
  default \<^verbatim>\<open>is_dst=False\<close>, which reads a wall-clock time that occurs twice (02:00 to
  02:59 on the October Sunday) or never (02:00 to 02:59 on the March Sunday) as
  standard time.
\<close>

definition berlin_is_dst :: "datetime \<Rightarrow> bool" where
  "berlin_is_dst dt =
     (let ms = last_sunday (year dt) 3; os = last_sunday (year dt) 10
      in (month dt > 3 \<or> (month dt = 3 \<and> (day dt > ms \<or> (day dt = ms \<and> hour dt \<ge> 3))))
       \<and> (month dt < 10 \<or> (month dt = 10 \<and> (day dt < os \<or> (day dt = os \<and> hour dt < 2)))))"

text \<open>\<^verbatim>\<open>tz.localize(dt)\<close>: the wall-clock time with its offset from UTC, in minutes.\<close>

definition localize :: "datetime \<Rightarrow> datetime \<times> nat" where
  "localize dt = (dt, if berlin_is_dst dt then 120 else 60)"

definition prev_day :: "datetime \<Rightarrow> error + datetime" where
  "prev_day dt =
     (if day dt > 1 then Inr (dt\<lparr>day := day dt - 1\<rparr>)
      else if month dt > 1
        then Inr (dt\<lparr>month := month dt - 1, day := days_in_month (year dt) (month dt - 1)\<rparr>)
      else if year dt > 1 then Inr (dt\<lparr>year := year dt - 1, month := 12, day := 31\<rparr>)
      else Inl OverflowError)"

text \<open>
  \<^verbatim>\<open>astimezone(pytz.utc)\<close>: the offset, less than a day, is taken off the wall-clock
  time; before 1 January of year 1 there is no date.
\<close>

definition astimezone_utc :: "datetime \<times> nat \<Rightarrow> error + datetime" where
  "astimezone_utc a =
     (let dt = fst a; off = snd a; t = 60 * hour dt + minute dt
      in if off \<le> t then Inr (dt\<lparr>hour := (t - off) div 60, minute := (t - off) mod 60\<rparr>)
         else bind_err (prev_day dt)
                (\<lambda>p. Inr (p\<lparr>hour := (t + 1440 - off) div 60, minute := (t + 1440 - off) mod 60\<rparr>)))"

definition pad2 :: "nat \<Rightarrow> string" where
  "pad2 n = (if n < 10 then ''0'' @ dec_nat n else dec_nat n)"

text \<open>
  \<^verbatim>\<open>strftime("%Y%m%dT%H%M%SZ")\<close>; the seconds are always zero. The year is printed
  as the C library of Linux prints it, without padding.
\<close>

definition strftime :: "datetime \<Rightarrow> string" where
  "strftime dt =
     dec_nat (year dt) @ pad2 (month dt) @ pad2 (day dt) @ ''T''
     @ pad2 (hour dt) @ pad2 (minute dt) @ ''00Z''"

text \<open>Lines 95 to 104 for one of the two combined strings.\<close>

definition local_to_utc :: "string \<Rightarrow> error + datetime" where
  "local_to_utc s = bind_err (strptime s) (\<lambda>dt. astimezone_utc (localize dt))"

definition berlin_to_utc :: "string \<Rightarrow> error + string" where
  "berlin_to_utc s = bind_err (local_to_utc s) (\<lambda>u. Inr (strftime u))"

section \<open>The converter\<close>

text \<open>
  What the converter takes from outside: the date pipeline of lines 95 to 104
  (\<open>to_utc\<close>, from a combined string to the formatted UTC time, or the exception it
  raises) and the clock of line 110 (\<open>now k\<close> is the formatted time of the \<open>k\<close>-th
  reading, counted from 0).
\<close>

record env =
  to_utc :: "string \<Rightarrow> error + string"
  now :: "nat \<Rightarrow> string"



text \<open>The locals of one round of the loop over the lessons (lines 52 to 88).\<close>

record lesson_ctx =
  subject :: json
  start_time_str :: json
  end_time_str :: json
  room :: json
  is_cancelled :: bool
  is_substitution :: bool
  final_title :: string
  description :: string
  dates :: json

text \<open>The body of \<^verbatim>\<open>if changes:\<close> (lines 69 to 77): the note and the two flags.\<close>

definition interpret_changes :: "json \<Rightarrow> error + string \<times> bool \<times> bool" where
  "interpret_changes changes =
     bind_err (dict_get changes ''caption'' (JStr [])) (\<lambda>caption.
     bind_err (dict_get changes ''type'' (JStr [])) (\<lambda>change_type.
     bind_err (dict_get changes ''cancelled'' JNull) (\<lambda>cancelled.
     bind_err (dict_get changes ''modified'' JNull) (\<lambda>modified.
     bind_err (if modified = JStr ''true'' \<or> change_type = JStr ''substitution'' then Inr True
               else bind_err (str_lower caption) (\<lambda>l. Inr (is_substring ''vertretung'' l)))
       (\<lambda>subst.
          Inr (if truthy caption then [CHR 0x0A] @ ''Hinweis: '' @ py_str caption else [],
               cancelled = JStr ''classFree'' \<or> change_type = JStr ''cancellation'',
               subst))))))"

definition title_prefix :: "bool \<Rightarrow> bool \<Rightarrow> string" where
  "title_prefix cancelled subst =
     (if cancelled then ''ENTF'' @ [CHR 0xC4] @ ''LLT: ''
      else if subst then ''VERTRETUNG: '' else [])"

definition lesson_locals :: "json \<Rightarrow> error + lesson_ctx" where
  "lesson_locals lesson =
     bind_err (dict_get lesson ''courseTitle'' (JStr ''Unbekannt'')) (\<lambda>title.
     bind_err (dict_get lesson ''subjectCode'' title) (\<lambda>subj.
     bind_err (dict_get lesson ''startTime'' (JStr ''0000'')) (\<lambda>start.
     bind_err (dict_get lesson ''endTime'' (JStr ''0000'')) (\<lambda>endt.
     bind_err (dict_get lesson ''roomCodes'' (JArr [])) (\<lambda>rooms.
     bind_err (if truthy rooms then getitem0 rooms else Inr (JStr [])) (\<lambda>rm.
     bind_err (dict_get lesson ''teacherCodes'' (JArr [])) (\<lambda>teachers.
     bind_err (py_join '', '' teachers) (\<lambda>teacher.
     bind_err (dict_get lesson ''changes'' JNull) (\<lambda>changes.
     bind_err (if truthy changes then interpret_changes changes else Inr ([], False, False))
       (\<lambda>(note, cancelled, subst).
     bind_err (dict_get lesson ''dates'' (JArr [])) (\<lambda>ds.
       Inr \<lparr>subject = subj, start_time_str = start, end_time_str = endt, room = rm,
            is_cancelled = cancelled, is_substitution = subst,
            final_title = title_prefix cancelled subst @ py_str subj,
            description = ''Lehrer: '' @ teacher @ note,
            dates = ds\<rparr>)))))))))))"

text \<open>
  The body of the \<^verbatim>\<open>try\<close> (lines 95 to 128) for one date: the lines of the event, or
  the exception that the \<^verbatim>\<open>except\<close> clause will catch. Nothing is appended to
  \<^verbatim>\<open>ics_lines\<close> before the last statement that can raise, so the lines are returned
  as a whole. The source runs the steps of the date pipeline for the two strings in
  turn; every exception of the \<^verbatim>\<open>try\<close> is caught alike, so their order does not show
  in the result. \<open>k\<close> is the number of clock readings before this one.
\<close>

definition event_uid :: "string \<Rightarrow> json \<Rightarrow> json \<Rightarrow> string" where
  "event_uid subj date_str start =
     ''davinci-'' @ subj @ ''-'' @ py_str date_str @ ''-'' @ py_str start @ ''@sync''"

definition try_event :: "env \<Rightarrow> lesson_ctx \<Rightarrow> json \<Rightarrow> nat \<Rightarrow> error + string list" where
  "try_event E c date_str k =
     bind_err (to_utc E (py_str date_str @ py_str (start_time_str c))) (\<lambda>start_utc.
     bind_err (to_utc E (py_str date_str @ py_str (end_time_str c))) (\<lambda>end_utc.
     bind_err (str_replace (subject c) CHR '' '' []) (\<lambda>subj.
       Inr ([''BEGIN:VEVENT'',
             ''UID:'' @ event_uid subj date_str (start_time_str c),
             ''DTSTAMP:'' @ now E k,
             ''DTSTART:'' @ start_utc,
             ''DTEND:'' @ end_utc,
             ''SUMMARY:'' @ final_title c,
             ''LOCATION:'' @ py_str (room c),
             ''DESCRIPTION:'' @ replace_char (CHR 0x0A) [CHR 0x5C, CHR ''n''] (description c)]
            @ (if is_cancelled c then [''STATUS:CANCELLED''] else [])
            @ [''END:VEVENT'']))))"










section \<open>Notions for stating the claims\<close>

text \<open>
  Reading an event back: the value of the first line of a block that starts with a tag.
\<close>

definition event_field :: "string \<Rightarrow> string list \<Rightarrow> string option" where
  "event_field tag ls = map_option (drop (length tag)) (find (prefix tag) ls)"

text \<open>A lesson without its change notice: the same entries, less the key \<^verbatim>\<open>changes\<close>.\<close>

definition without_changes :: "(string \<times> json) list \<Rightarrow> (string \<times> json) list" where
  "without_changes kvs = filter (\<lambda>kv. fst kv \<noteq> ''changes'') kvs"

text \<open>The fields of an event that identify and place it.\<close>

definition frame_fields :: "string list \<Rightarrow> string option list" where
  "frame_fields ls = map (\<lambda>tag. event_field tag ls) [''UID:'', ''DTSTART:'', ''DTEND:'', ''LOCATION:'']"












section \<open>Example inputs\<close>

text \<open>Two environments with the modelled date library: clocks that stand still.\<close>

definition berlin_env :: env where
  "berlin_env = \<lparr>to_utc = berlin_to_utc, now = (\<lambda>k. ''20240101T000000Z'')\<rparr>"

definition later_env :: env where
  "later_env = \<lparr>to_utc = berlin_to_utc, now = (\<lambda>k. ''20250101T120000Z'')\<rparr>"

text \<open>A lesson with nothing but a course title, and the locals computed from it.\<close>

definition title_only_lesson :: "(string \<times> json) list" where
  "title_only_lesson = [(''courseTitle'', JStr ''Mathematik'')]"

definition title_only_ctx :: lesson_ctx where
  "title_only_ctx =
     \<lparr>subject = JStr ''Mathematik'', start_time_str = JStr ''0000'', end_time_str = JStr ''0000'',
      room = JStr [], is_cancelled = False, is_substitution = False, final_title = ''Mathematik'',
      description = ''Lehrer: '', dates = JArr []\<rparr>"

text \<open>
  A cancelled lesson whose caption also speaks of a substitution; the second of its
  dates does not parse. Its locals, and its event for the first date.
\<close>

definition cancelled_lesson :: "(string \<times> json) list" where
  "cancelled_lesson =
     [(''subjectCode'', JStr ''M A''), (''startTime'', JStr ''0800''), (''endTime'', JStr ''0930''),
      (''roomCodes'', JArr [JStr ''R1'', JStr ''R2'']),
      (''teacherCodes'', JArr [JStr ''AB'', JStr ''CD'']),
      (''changes'', JObj [(''caption'', JStr ''Vertretung Hr. X''), (''cancelled'', JStr ''classFree'')]),
      (''dates'', JArr [JStr ''20240328'', JStr ''2024'', JStr ''20240402''])]"

definition cancelled_ctx :: lesson_ctx where
  "cancelled_ctx =
     \<lparr>subject = JStr ''M A'', start_time_str = JStr ''0800'', end_time_str = JStr ''0930'',
      room = JStr ''R1'', is_cancelled = True, is_substitution = True,
      final_title = ''ENTF'' @ [CHR 0xC4] @ ''LLT: M A'',
      description = ''Lehrer: AB, CD'' @ [CHR 0x0A] @ ''Hinweis: Vertretung Hr. X'',
      dates = JArr [JStr ''20240328'', JStr ''2024'', JStr ''20240402'']\<rparr>"

definition cancelled_event :: "string list" where
  "cancelled_event =
     [''BEGIN:VEVENT'', ''UID:davinci-MA-20240328-0800@sync'', ''DTSTAMP:20240101T000000Z'',
      ''DTSTART:20240328T070000Z'', ''DTEND:20240328T083000Z'',
      ''SUMMARY:ENTF'' @ [CHR 0xC4] @ ''LLT: M A'', ''LOCATION:R1'',
      ''DESCRIPTION:Lehrer: AB, CD'' @ [CHR 0x5C] @ ''nHinweis: Vertretung Hr. X'',
      ''STATUS:CANCELLED'', ''END:VEVENT'']"

text \<open>The locals and the first event of the same lesson without its change notice.\<close>

definition plain_ctx :: lesson_ctx where
  "plain_ctx =
     \<lparr>subject = JStr ''M A'', start_time_str = JStr ''0800'', end_time_str = JStr ''0930'',
      room = JStr ''R1'', is_cancelled = False, is_substitution = False,
      final_title = ''M A'', description = ''Lehrer: AB, CD'',
      dates = JArr [JStr ''20240328'', JStr ''2024'', JStr ''20240402'']\<rparr>"

definition plain_event :: "string list" where
  "plain_event =
     [''BEGIN:VEVENT'', ''UID:davinci-MA-20240328-0800@sync'', ''DTSTAMP:20240101T000000Z'',
      ''DTSTART:20240328T070000Z'', ''DTEND:20240328T083000Z'',
      ''SUMMARY:M A'', ''LOCATION:R1'', ''DESCRIPTION:Lehrer: AB, CD'', ''END:VEVENT'']"

text \<open>A substituted lesson, its locals and its event in the later environment.\<close>

definition substituted_lesson :: "(string \<times> json) list" where
  "substituted_lesson =
     [(''subjectCode'', JStr ''MA''), (''startTime'', JStr ''0800''), (''endTime'', JStr ''0845''),
      (''changes'', JObj [(''caption'', JStr ''VERTRETUNG Hr. X'')]),
      (''dates'', JArr [JStr ''20240328''])]"

definition substituted_ctx :: lesson_ctx where
  "substituted_ctx =
     \<lparr>subject = JStr ''MA'', start_time_str = JStr ''0800'', end_time_str = JStr ''0845'',
      room = JStr [], is_cancelled = False, is_substitution = True,
      final_title = ''VERTRETUNG: MA'',
      description = ''Lehrer: '' @ [CHR 0x0A] @ ''Hinweis: VERTRETUNG Hr. X'',
      dates = JArr [JStr ''20240328'']\<rparr>"

definition substituted_event :: "string list" where
  "substituted_event =
     [''BEGIN:VEVENT'', ''UID:davinci-MA-20240328-0800@sync'', ''DTSTAMP:20250101T120000Z'',
      ''DTSTART:20240328T070000Z'', ''DTEND:20240328T074500Z'',
      ''SUMMARY:VERTRETUNG: MA'', ''LOCATION:'',
      ''DESCRIPTION:Lehrer: '' @ [CHR 0x5C] @ ''nHinweis: VERTRETUNG Hr. X'',
      ''END:VEVENT'']"





section \<open>Auxiliary facts\<close>

lemma bind_err_Inr [simp]: "bind_err (Inr x) f = f x"
  by (simp add: bind_err_def)

lemma bind_err_Inl [simp]: "bind_err (Inl e) f = Inl e"
  by (simp add: bind_err_def)

lemma bind_err_eq_Inr: "bind_err r f = Inr y \<longleftrightarrow> (\<exists>x. r = Inr x \<and> f x = Inr y)"
  by (cases r) simp_all

lemma lookup_or_Some [simp]: "map_of kvs k = Some v \<Longrightarrow> lookup_or kvs k d = v"
  by (simp add: lookup_or_def)

lemma lookup_or_None [simp]: "map_of kvs k = None \<Longrightarrow> lookup_or kvs k d = d"
  by (simp add: lookup_or_def)

lemma lesson_locals_fields:
  assumes "lesson_locals (JObj kvs) = Inr c"
  shows "subject c = lookup_or kvs ''subjectCode'' (lookup_or kvs ''courseTitle'' (JStr ''Unbekannt''))"
    and "start_time_str c = lookup_or kvs ''startTime'' (JStr ''0000'')"
    and "end_time_str c = lookup_or kvs ''endTime'' (JStr ''0000'')"
    and "dates c = lookup_or kvs ''dates'' (JArr [])"
    and "final_title c = title_prefix (is_cancelled c) (is_substitution c) @ py_str (subject c)"
    and "(if truthy (lookup_or kvs ''roomCodes'' (JArr [])) then getitem0 (lookup_or kvs ''roomCodes'' (JArr [])) else Inr (JStr [])) = Inr (room c)"
    and "\<exists>note. (if truthy (lookup_or kvs ''changes'' JNull) then interpret_changes (lookup_or kvs ''changes'' JNull)
          else Inr ([], False, False)) = Inr (note, is_cancelled c, is_substitution c)"
  using assms
  by (auto simp: lesson_locals_def bind_err_eq_Inr split: prod.splits)

lemma try_event_Inr:
  assumes "try_event E c d k = Inr ls"
  shows "\<exists>su eu s. to_utc E (py_str d @ py_str (start_time_str c)) = Inr su
     \<and> to_utc E (py_str d @ py_str (end_time_str c)) = Inr eu
     \<and> subject c = JStr s
     \<and> ls = [''BEGIN:VEVENT'',
             ''UID:'' @ event_uid (replace_char CHR '' '' [] s) d (start_time_str c),
             ''DTSTAMP:'' @ now E k,
             ''DTSTART:'' @ su,
             ''DTEND:'' @ eu,
             ''SUMMARY:'' @ final_title c,
             ''LOCATION:'' @ py_str (room c),
             ''DESCRIPTION:'' @ replace_char (CHR 0x0A) [CHR 0x5C, CHR ''n''] (description c)]
            @ (if is_cancelled c then [''STATUS:CANCELLED''] else [])
            @ [''END:VEVENT'']"
  using assms unfolding try_event_def bind_err_eq_Inr
  by (cases "subject c") auto


lemma interpret_changes_cancelled:
  assumes "interpret_changes (JObj ch) = Inr (note, canc, sub)"
  shows "canc = (lookup_or ch ''cancelled'' JNull = JStr ''classFree'' \<or> lookup_or ch ''type'' (JStr []) = JStr ''cancellation'')"
  using assms unfolding interpret_changes_def bind_err_eq_Inr by auto


lemma str_lower_Inr: "str_lower x = Inr l \<longleftrightarrow> (\<exists>s. x = JStr s \<and> l = py_lower s)"
  by (cases x) auto

lemma interpret_changes_substitution:
  assumes "interpret_changes (JObj ch) = Inr (note, canc, sub)"
  shows "sub = (lookup_or ch ''modified'' JNull = JStr ''true''
               \<or> lookup_or ch ''type'' (JStr []) = JStr ''substitution''
               \<or> (\<exists>cap. lookup_or ch ''caption'' (JStr []) = JStr cap \<and> is_substring ''vertretung'' (py_lower cap)))"
proof (cases "lookup_or ch ''modified'' JNull = JStr ''true'' \<or> lookup_or ch ''type'' (JStr []) = JStr ''substitution''")
  case True
  with assms show ?thesis
    unfolding interpret_changes_def bind_err_eq_Inr by auto
next
  case False
  with assms show ?thesis
    unfolding interpret_changes_def bind_err_eq_Inr by (auto simp: bind_err_eq_Inr str_lower_Inr)
qed

lemma is_substring_iff: "is_substring sub s \<longleftrightarrow> (\<exists>pre suf. s = pre @ sub @ suf)"
proof (induction s)
  case Nil
  then show ?case by auto
next
  case (Cons c cs)
  show ?case
  proof
    assume "is_substring sub (c # cs)"
    then consider "prefix sub (c # cs)" | "is_substring sub cs" by auto
    then show "\<exists>pre suf. c # cs = pre @ sub @ suf"
    proof cases
      case 1
      then obtain suf where "c # cs = sub @ suf" by (auto simp: prefix_def)
      then have "c # cs = [] @ sub @ suf" by simp
      then show ?thesis by blast
    next
      case 2
      with Cons.IH obtain pre suf where "cs = pre @ sub @ suf" by blast
      then have "c # cs = (c # pre) @ sub @ suf" by simp
      then show ?thesis by blast
    qed
  next
    assume "\<exists>pre suf. c # cs = pre @ sub @ suf"
    then obtain pre suf where eq: "c # cs = pre @ sub @ suf" by blast
    show "is_substring sub (c # cs)"
    proof (cases pre)
      case Nil
      with eq have "prefix sub (c # cs)" by (simp add: prefix_def)
      then show ?thesis by simp
    next
      case (Cons p ps)
      with eq have "cs = ps @ sub @ suf" by simp
      with Cons.IH have "is_substring sub cs" by blast
      then show ?thesis by simp
    qed
  qed
qed

lemma lookup_or_eq_iff: "d \<noteq> v \<Longrightarrow> lookup_or kvs k d = v \<longleftrightarrow> map_of kvs k = Some v"
  by (auto simp: lookup_or_def split: option.splits)

lemma py_lower_append: "py_lower (a @ b) = py_lower a @ py_lower b"
  by (simp add: py_lower_def)

lemma lesson_locals_Inr_iff:
  "lesson_locals (JObj kvs) = Inr c \<longleftrightarrow>
     (\<exists>rm teacher nt canc sub.
        (if truthy (lookup_or kvs ''roomCodes'' (JArr []))
         then getitem0 (lookup_or kvs ''roomCodes'' (JArr [])) else Inr (JStr [])) = Inr rm
      \<and> py_join '', '' (lookup_or kvs ''teacherCodes'' (JArr [])) = Inr teacher
      \<and> (if truthy (lookup_or kvs ''changes'' JNull)
         then interpret_changes (lookup_or kvs ''changes'' JNull)
         else Inr ([], False, False)) = Inr (nt, canc, sub)
      \<and> c = \<lparr>subject = lookup_or kvs ''subjectCode'' (lookup_or kvs ''courseTitle'' (JStr ''Unbekannt'')),
              start_time_str = lookup_or kvs ''startTime'' (JStr ''0000''),
              end_time_str = lookup_or kvs ''endTime'' (JStr ''0000''),
              room = rm, is_cancelled = canc, is_substitution = sub,
              final_title = title_prefix canc sub
                 @ py_str (lookup_or kvs ''subjectCode'' (lookup_or kvs ''courseTitle'' (JStr ''Unbekannt''))),
              description = ''Lehrer: '' @ teacher @ nt,
              dates = lookup_or kvs ''dates'' (JArr [])\<rparr>)"
  unfolding lesson_locals_def dict_get.simps bind_err_Inr
  by (auto simp: bind_err_eq_Inr split: prod.splits)

lemma map_of_without_changes:
  "map_of (without_changes kvs) k = (if k = ''changes'' then None else map_of kvs k)"
  by (induction kvs) (auto simp: without_changes_def)

lemma lookup_or_without_changes:
  "lookup_or (without_changes kvs) k d = (if k = ''changes'' then d else lookup_or kvs k d)"
  by (simp add: lookup_or_def map_of_without_changes)





































section \<open>The claims\<close>

text \<open>
  C1. The UID of an emitted event is \<^verbatim>\<open>davinci-\<close>, the subject with its space characters
  removed, the date string and the start-time string, separated by hyphens, and the
  suffix \<^verbatim>\<open>@sync\<close>. Two events whose lessons and dates agree on that triple have the
  same UID, whatever the environment (the clock, the run), the other fields of the
  lessons and the number of events emitted before.
\<close>

theorem uid_deterministic:
  assumes "try_event E1 c1 d1 k1 = Inr ls1"
    and "try_event E2 c2 d2 k2 = Inr ls2"
    and "subject c1 = JStr s1"
    and "subject c2 = JStr s2"
    and "replace_char CHR '' '' [] s1 = replace_char CHR '' '' [] s2"
    and "py_str d1 = py_str d2"
    and "py_str (start_time_str c1) = py_str (start_time_str c2)"
  shows "event_field ''UID:'' ls1 = event_field ''UID:'' ls2
       \<and> event_field ''UID:'' ls1 =
           Some (''davinci-'' @ replace_char CHR '' '' [] s1 @ ''-'' @ py_str d1 @ ''-''
                 @ py_str (start_time_str c1) @ ''@sync'')"
  using try_event_Inr [OF assms(1)] try_event_Inr [OF assms(2)] assms(3-7)
  by (auto simp: event_field_def event_uid_def)

theorem uid_deterministic_witness:
  "try_event berlin_env cancelled_ctx (JStr ''20240328'') 0 = Inr cancelled_event
   \<and> try_event later_env substituted_ctx (JStr ''20240328'') 5 = Inr substituted_event
   \<and> event_field ''UID:'' cancelled_event = event_field ''UID:'' substituted_event
   \<and> event_field ''UID:'' cancelled_event = Some ''davinci-MA-20240328-0800@sync''"
proof -
  have h1: "try_event berlin_env cancelled_ctx (JStr ''20240328'') 0 = Inr cancelled_event"
    by code_simp
  have h2: "try_event later_env substituted_ctx (JStr ''20240328'') 5 = Inr substituted_event"
    by code_simp
  have h3: "subject cancelled_ctx = JStr ''M A''"
    by (simp add: cancelled_ctx_def)
  have h4: "subject substituted_ctx = JStr ''MA''"
    by (simp add: substituted_ctx_def)
  have h5: "replace_char CHR '' '' [] ''M A'' = replace_char CHR '' '' [] ''MA''"
    by (simp add: replace_char_def)
  have h6: "py_str (JStr ''20240328'') = py_str (JStr ''20240328'')"
    by simp
  have h7: "py_str (start_time_str cancelled_ctx) = py_str (start_time_str substituted_ctx)"
    by (simp add: cancelled_ctx_def substituted_ctx_def)
  have e: "''davinci-'' @ replace_char CHR '' '' [] ''M A'' @ ''-'' @ py_str (JStr ''20240328'') @ ''-''
             @ py_str (start_time_str cancelled_ctx) @ ''@sync'' = ''davinci-MA-20240328-0800@sync''"
    by (simp add: cancelled_ctx_def replace_char_def)
  note u = uid_deterministic [OF h1 h2 h3 h4 h5 h6 h7]
  show ?thesis
    by (intro conjI h1 h2 u [THEN conjunct1] u [THEN conjunct2, unfolded e])
qed






text \<open>
  C4. For every lesson whose change notice has the cancellation sentinel set (its
  \<^verbatim>\<open>cancelled\<close> field is \<^verbatim>\<open>classFree\<close>, or its \<^verbatim>\<open>type\<close> is \<^verbatim>\<open>cancellation\<close>),
  every emitted event has the title "ENTFAELLT: " (with A-umlaut) followed by the subject,
  whatever the substitution flag is, and carries the line \<^verbatim>\<open>STATUS:CANCELLED\<close>.
\<close>

theorem cancelled_takes_precedence:
  assumes "lesson_locals (JObj kvs) = Inr c"
    and "map_of kvs ''changes'' = Some (JObj ch)"
    and "map_of ch ''cancelled'' = Some (JStr ''classFree'')
         \<or> map_of ch ''type'' = Some (JStr ''cancellation'')"
    and "try_event E c d k = Inr ls"
  shows "event_field ''SUMMARY:'' ls = Some (''ENTF'' @ [CHR 0xC4] @ ''LLT: '' @ py_str (subject c))
       \<and> ''STATUS:CANCELLED'' \<in> set ls"
proof -
  from assms(3) have ne: "ch \<noteq> []" by auto
  from lesson_locals_fields(7) [OF assms(1)] assms(2) ne
  obtain nt where "interpret_changes (JObj ch) = Inr (nt, is_cancelled c, is_substitution c)"
    by auto
  from interpret_changes_cancelled [OF this] assms(3) have canc: "is_cancelled c"
    by auto
  with lesson_locals_fields(5) [OF assms(1)]
  have title: "final_title c = ''ENTF'' @ [CHR 0xC4] @ ''LLT: '' @ py_str (subject c)"
    by (simp add: title_prefix_def)
  from try_event_Inr [OF assms(4)] canc title show ?thesis
    by (auto simp: event_field_def)
qed

theorem cancelled_takes_precedence_witness:
  "lesson_locals (JObj cancelled_lesson) = Inr cancelled_ctx
   \<and> try_event berlin_env cancelled_ctx (JStr ''20240328'') 0 = Inr cancelled_event
   \<and> event_field ''SUMMARY:'' cancelled_event = Some (''ENTF'' @ [CHR 0xC4] @ ''LLT: M A'')
   \<and> ''STATUS:CANCELLED'' \<in> set cancelled_event"
proof -
  have h1: "lesson_locals (JObj cancelled_lesson) = Inr cancelled_ctx"
    by code_simp
  have h2: "map_of cancelled_lesson ''changes''
            = Some (JObj [(''caption'', JStr ''Vertretung Hr. X''), (''cancelled'', JStr ''classFree'')])"
    by (simp add: cancelled_lesson_def)
  have h3: "map_of [(''caption'', JStr ''Vertretung Hr. X''), (''cancelled'', JStr ''classFree'')]
              ''cancelled'' = Some (JStr ''classFree'')
            \<or> map_of [(''caption'', JStr ''Vertretung Hr. X''), (''cancelled'', JStr ''classFree'')]
              ''type'' = Some (JStr ''cancellation'')"
    by simp
  have h4: "try_event berlin_env cancelled_ctx (JStr ''20240328'') 0 = Inr cancelled_event"
    by code_simp
  from cancelled_takes_precedence [OF h1 h2 h3 h4] show ?thesis
    using h1 h4 by (simp add: cancelled_ctx_def)
qed

text \<open>
  C5. For every lesson whose change notice marks a substitution (its caption holds a piece
  that reads \<^verbatim>\<open>vertretung\<close> once lower-cased, or its \<^verbatim>\<open>modified\<close> field is \<^verbatim>\<open>true\<close>,
  or its \<^verbatim>\<open>type\<close> is \<^verbatim>\<open>substitution\<close>) and sets no cancellation sentinel, every
  emitted event has the title \<^verbatim>\<open>VERTRETUNG: \<close> followed by the subject.
\<close>

theorem substitution_prefix:
  assumes "lesson_locals (JObj kvs) = Inr c"
    and "map_of kvs ''changes'' = Some (JObj ch)"
    and "(\<exists>cap pre w suf. map_of ch ''caption'' = Some (JStr cap) \<and> cap = pre @ w @ suf
            \<and> py_lower w = ''vertretung'')
         \<or> map_of ch ''modified'' = Some (JStr ''true'')
         \<or> map_of ch ''type'' = Some (JStr ''substitution'')"
    and "map_of ch ''cancelled'' \<noteq> Some (JStr ''classFree'')"
    and "map_of ch ''type'' \<noteq> Some (JStr ''cancellation'')"
    and "try_event E c d k = Inr ls"
  shows "event_field ''SUMMARY:'' ls = Some (''VERTRETUNG: '' @ py_str (subject c))"
proof -
  from assms(3) have ne: "ch \<noteq> []" by auto
  from lesson_locals_fields(7) [OF assms(1)] assms(2) ne
  obtain nt where ic: "interpret_changes (JObj ch) = Inr (nt, is_cancelled c, is_substitution c)"
    by auto
  from interpret_changes_cancelled [OF ic] assms(4,5) have canc: "\<not> is_cancelled c"
    by (simp add: lookup_or_eq_iff)
  have "lookup_or ch ''modified'' JNull = JStr ''true''
        \<or> lookup_or ch ''type'' (JStr []) = JStr ''substitution''
        \<or> (\<exists>cap. lookup_or ch ''caption'' (JStr []) = JStr cap
                  \<and> is_substring ''vertretung'' (py_lower cap))"
    using assms(3)
  proof (elim disjE exE conjE)
    fix cap pre w suf
    assume cap: "map_of ch ''caption'' = Some (JStr cap)" "cap = pre @ w @ suf"
      and w: "py_lower w = ''vertretung''"
    from cap(2) w have "py_lower cap = py_lower pre @ ''vertretung'' @ py_lower suf"
      by (simp add: py_lower_append)
    then have "is_substring ''vertretung'' (py_lower cap)"
      unfolding is_substring_iff by blast
    with cap(1) show ?thesis by auto
  qed auto
  with interpret_changes_substitution [OF ic] have sub: "is_substitution c"
    by blast
  from canc sub lesson_locals_fields(5) [OF assms(1)]
  have title: "final_title c = ''VERTRETUNG: '' @ py_str (subject c)"
    by (simp add: title_prefix_def)
  from try_event_Inr [OF assms(6)] title show ?thesis
    by (auto simp: event_field_def)
qed

theorem substitution_prefix_witness:
  "lesson_locals (JObj substituted_lesson) = Inr substituted_ctx
   \<and> try_event later_env substituted_ctx (JStr ''20240328'') 0 = Inr substituted_event
   \<and> event_field ''SUMMARY:'' substituted_event = Some ''VERTRETUNG: MA''"
proof -
  let ?ch = "[(''caption'', JStr ''VERTRETUNG Hr. X'')]"
  have h1: "lesson_locals (JObj substituted_lesson) = Inr substituted_ctx"
    by code_simp
  have h2: "map_of substituted_lesson ''changes'' = Some (JObj ?ch)"
    by (simp add: substituted_lesson_def)
  have low: "py_lower ''VERTRETUNG'' = ''vertretung''"
    by code_simp
  have "map_of ?ch ''caption'' = Some (JStr ''VERTRETUNG Hr. X'')
        \<and> ''VERTRETUNG Hr. X'' = [] @ ''VERTRETUNG'' @ '' Hr. X''
        \<and> py_lower ''VERTRETUNG'' = ''vertretung''"
    using low by simp
  then have h3: "(\<exists>cap pre w suf. map_of ?ch ''caption'' = Some (JStr cap) \<and> cap = pre @ w @ suf
            \<and> py_lower w = ''vertretung'')
         \<or> map_of ?ch ''modified'' = Some (JStr ''true'')
         \<or> map_of ?ch ''type'' = Some (JStr ''substitution'')"
    by blast
  have h4: "map_of ?ch ''cancelled'' \<noteq> Some (JStr ''classFree'')"
    by simp
  have h5: "map_of ?ch ''type'' \<noteq> Some (JStr ''cancellation'')"
    by simp
  have h6: "try_event later_env substituted_ctx (JStr ''20240328'') 0 = Inr substituted_event"
    by code_simp
  from substitution_prefix [OF h1 h2 h3 h4 h5 h6] show ?thesis
    using h1 h6 by (simp add: substituted_ctx_def)
qed








text \<open>
  C9. For every lesson entry, the display subject is the value of \<^verbatim>\<open>subjectCode\<close> when
  the key is present; otherwise the value of \<^verbatim>\<open>courseTitle\<close> when that key is present;
  otherwise the placeholder \<^verbatim>\<open>Unbekannt\<close>. The title of the lesson's events is that
  subject behind the status prefix.
\<close>

theorem display_subject_fallback:
  assumes "lesson_locals (JObj kvs) = Inr c"
  shows "subject c =
           (case map_of kvs ''subjectCode'' of
              Some code \<Rightarrow> code
            | None \<Rightarrow> (case map_of kvs ''courseTitle'' of
                         Some title \<Rightarrow> title
                       | None \<Rightarrow> JStr ''Unbekannt''))
       \<and> final_title c = title_prefix (is_cancelled c) (is_substitution c) @ py_str (subject c)"
  using lesson_locals_fields(1,5) [OF assms] by (simp add: lookup_or_def split: option.splits)

theorem display_subject_fallback_witness:
  "lesson_locals (JObj title_only_lesson) = Inr title_only_ctx
   \<and> subject title_only_ctx = JStr ''Mathematik''
   \<and> final_title title_only_ctx = ''Mathematik''"
proof -
  have h: "lesson_locals (JObj title_only_lesson) = Inr title_only_ctx"
    by code_simp
  from display_subject_fallback [OF h] show ?thesis
    using h by (simp add: title_only_lesson_def title_only_ctx_def title_prefix_def)
qed

text \<open>
  C10. A lesson and the same lesson without its \<^verbatim>\<open>changes\<close> entry have the same dates,
  and for every date the two either both raise the same exception inside the
  \<^verbatim>\<open>try\<close>, or both emit an event, with the same UID, DTSTART, DTEND and LOCATION. So
  the change notice reaches an event only through its title, description and status
  line.
\<close>

theorem change_notice_frame:
  assumes "lesson_locals (JObj kvs) = Inr c"
  shows "\<exists>c0. lesson_locals (JObj (without_changes kvs)) = Inr c0
            \<and> dates c0 = dates c
            \<and> map_sum id frame_fields (try_event E c0 d k) = map_sum id frame_fields (try_event E c d k)"
proof -
  from assms obtain rm teacher nt canc sub where
    rm: "(if truthy (lookup_or kvs ''roomCodes'' (JArr []))
          then getitem0 (lookup_or kvs ''roomCodes'' (JArr [])) else Inr (JStr [])) = Inr rm"
    and teacher: "py_join '', '' (lookup_or kvs ''teacherCodes'' (JArr [])) = Inr teacher"
    and c: "c = \<lparr>subject = lookup_or kvs ''subjectCode'' (lookup_or kvs ''courseTitle'' (JStr ''Unbekannt'')),
              start_time_str = lookup_or kvs ''startTime'' (JStr ''0000''),
              end_time_str = lookup_or kvs ''endTime'' (JStr ''0000''),
              room = rm, is_cancelled = canc, is_substitution = sub,
              final_title = title_prefix canc sub
                 @ py_str (lookup_or kvs ''subjectCode'' (lookup_or kvs ''courseTitle'' (JStr ''Unbekannt''))),
              description = ''Lehrer: '' @ teacher @ nt,
              dates = lookup_or kvs ''dates'' (JArr [])\<rparr>"
    unfolding lesson_locals_Inr_iff by blast
  define c0 where "c0 = c\<lparr>is_cancelled := False, is_substitution := False,
      final_title := py_str (subject c), description := ''Lehrer: '' @ teacher\<rparr>"
  have l0: "lesson_locals (JObj (without_changes kvs)) = Inr c0"
    unfolding lesson_locals_Inr_iff
    by (rule exI [of _ rm], rule exI [of _ teacher], rule exI [of _ "[]"],
        rule exI [of _ False], rule exI [of _ False])
       (use rm teacher in \<open>simp add: lookup_or_without_changes c0_def c title_prefix_def
          split: if_splits\<close>)
  have same: "subject c0 = subject c" "start_time_str c0 = start_time_str c"
    "end_time_str c0 = end_time_str c" "room c0 = room c" "dates c0 = dates c"
    by (simp_all add: c0_def)
  have "map_sum id frame_fields (try_event E c0 d k) = map_sum id frame_fields (try_event E c d k)"
    unfolding try_event_def same
    by (cases "to_utc E (py_str d @ py_str (start_time_str c))";
        cases "to_utc E (py_str d @ py_str (end_time_str c))";
        cases "str_replace (subject c) CHR '' '' []")
       (simp_all add: frame_fields_def event_field_def)
  with l0 same(5) show ?thesis by blast
qed

theorem change_notice_frame_witness:
  "lesson_locals (JObj cancelled_lesson) = Inr cancelled_ctx
   \<and> lesson_locals (JObj (without_changes cancelled_lesson)) = Inr plain_ctx
   \<and> try_event berlin_env cancelled_ctx (JStr ''20240328'') 0 = Inr cancelled_event
   \<and> try_event berlin_env plain_ctx (JStr ''20240328'') 0 = Inr plain_event
   \<and> frame_fields plain_event = frame_fields cancelled_event"
proof -
  have h1: "lesson_locals (JObj cancelled_lesson) = Inr cancelled_ctx"
    by code_simp
  have h2: "lesson_locals (JObj (without_changes cancelled_lesson)) = Inr plain_ctx"
    by code_simp
  have h3: "try_event berlin_env cancelled_ctx (JStr ''20240328'') 0 = Inr cancelled_event"
    by code_simp
  have h4: "try_event berlin_env plain_ctx (JStr ''20240328'') 0 = Inr plain_event"
    by code_simp
  from change_notice_frame [OF h1, of berlin_env "JStr ''20240328''" 0]
  obtain c0 where a: "lesson_locals (JObj (without_changes cancelled_lesson)) = Inr c0"
    and b: "map_sum id frame_fields (try_event berlin_env c0 (JStr ''20240328'') 0)
            = map_sum id frame_fields (try_event berlin_env cancelled_ctx (JStr ''20240328'') 0)"
    by blast
  from a h2 have "c0 = plain_ctx" by simp
  with b h3 h4 have "frame_fields plain_event = frame_fields cancelled_event" by simp
  with h1 h2 h3 h4 show ?thesis by simp
qed

end
